theory Spec2Isabelle
  imports Complex_Main "HOL-Library.AList"
begin

section \<open>Data model of the simulator core\<close>

text \<open>
  The development embeds \<^verbatim>\<open>batsim_py/simulator.py\<close>: the self-contained handle
  \<^verbatim>\<open>GridSimulatorHandler\<close> and the remote handle \<^verbatim>\<open>BatsimSimulatorHandler\<close>.

  Python numbers (timestamps, speeds, work amounts, walltimes) are rationals: the
  arithmetic of the source is read exactly, so rounding of binary floating point is outside
  the model. Every exception the source can raise is a value of \<open>error\<close>; an operation
  returns \<open>Inl\<close> of the error or \<open>Inr\<close> of the updated handle.

  Callbacks are observers: the model records, in the order of the calls, every event that
  a dispatch loop hands to the registered callbacks (field \<open>dispatched\<close>). Commands are
  issued between two operations, not from inside a callback.
\<close>

datatype error =
  AssertionError | RuntimeError | KeyError | StopIteration | NotImplementedError
  | ValueError | ZeroDivisionError | AttributeError | UnboundLocalError

datatype EventType =
  SIMULATION_BEGINS | SIMULATION_ENDS | JOB_SUBMITTED | JOB_STARTED | JOB_COMPLETED
  | JOB_KILLED | RESOURCE_POWER_STATE_CHANGED | REQUESTED_CALL | NOTIFY

datatype JobState = COMPLETED_SUCCESSFULLY | COMPLETED_WALLTIME_REACHED

datatype WorkloadProfileType = parallel_homogeneous | parallel_homogeneous_total | other_profile_type

datatype PowerStateType = computation | sleep | switching_on | switching_off

datatype NotifyType = no_more_static_job_to_submit | registration_finished | other_notify_type

record WorkloadProfile =
  ptype :: WorkloadProfileType
  cpu :: rat

record Job =
  job_id :: string
  profile :: string
  res :: int
  walltime :: rat
  user :: string

record PowerState =
  ps_id :: nat
  ps_type :: PowerStateType
  ps_speed :: rat

record Resource =
  r_id :: nat
  parent_id :: nat
  speed :: rat

record Node =
  n_id :: nat
  power_states :: "PowerState list"
  resources :: "Resource list"
  is_on :: bool

record Platform =
  nodes :: "Node list"

datatype EventData =
  SimulationBegins Platform
  | SimulationEnds
  | JobSubmitted Job
  | JobStarted string "nat list"
  | JobCompleted string JobState string "nat list"
  | JobKilled "string list"
  | RequestedCall
  | ResourcePowerStateChanged "nat list" nat
  | NotifyEvent NotifyType

record Event =
  timestamp :: rat
  data :: EventData

fun etype :: "Event \<Rightarrow> EventType" where
  "etype e =
     (case data e of
        SimulationBegins _ \<Rightarrow> SIMULATION_BEGINS
      | SimulationEnds \<Rightarrow> SIMULATION_ENDS
      | JobSubmitted _ \<Rightarrow> JOB_SUBMITTED
      | JobStarted _ _ \<Rightarrow> JOB_STARTED
      | JobCompleted _ _ _ _ \<Rightarrow> JOB_COMPLETED
      | JobKilled _ \<Rightarrow> JOB_KILLED
      | RequestedCall \<Rightarrow> REQUESTED_CALL
      | ResourcePowerStateChanged _ _ \<Rightarrow> RESOURCE_POWER_STATE_CHANGED
      | NotifyEvent _ \<Rightarrow> NOTIFY)"

subsection \<open>Library behaviour the source relies on\<close>

text \<open>
  Python's \<^verbatim>\<open>int(x)\<close> on a float truncates toward zero.
\<close>

definition py_int :: "rat \<Rightarrow> int" where
  "py_int x = (if 0 \<le> x then \<lfloor>x\<rfloor> else \<lceil>x\<rceil>)"

text \<open>
  Modelled from the spec: \<^verbatim>\<open>SortedList\<close> (imported through
  \<^verbatim>\<open>batsim_py.utils.commons\<close>, not among the sources). Section 4.1: adding an element
  keeps the order of the keys and, among equal keys, the order of insertion.
\<close>

fun SortedList_add :: "('a \<Rightarrow> rat) \<Rightarrow> 'a \<Rightarrow> 'a list \<Rightarrow> 'a list" where
  "SortedList_add key e [] = [e]"
| "SortedList_add key e (x # xs) =
     (if key e < key x then e # x # xs else x # SortedList_add key e xs)"

text \<open>
  \<^verbatim>\<open>SortedList.pop(p)\<close> removes the element at index \<open>p\<close>; out of range it raises
  \<^verbatim>\<open>IndexError\<close>, which the source never reaches (every index comes from an
  enumeration of the list itself).
\<close>

definition SortedList_pop :: "nat \<Rightarrow> 'a list \<Rightarrow> 'a list" where
  "SortedList_pop p xs = take p xs @ drop (Suc p) xs"

text \<open>
  Modelled from the spec: \<^verbatim>\<open>str(ProcSet(*ids))\<close>, the compact encoding of a set of
  resource ids (glossary, Allocation). The model keeps the set itself, as the increasing
  list of its members.
\<close>

definition ProcSet :: "nat list \<Rightarrow> nat list" where
  "ProcSet ids = sort (remdups ids)"

text \<open>
  \<^verbatim>\<open>next(x for x in xs if p(x))\<close>: the first element that satisfies \<open>p\<close>, and
  \<^verbatim>\<open>StopIteration\<close> when there is none.
\<close>

fun py_next :: "('a \<Rightarrow> bool) \<Rightarrow> 'a list \<Rightarrow> error + 'a" where
  "py_next p [] = Inl StopIteration"
| "py_next p (x # xs) = (if p x then Inr x else py_next p xs)"

text \<open>
  Modelled from the spec: the \<^verbatim>\<open>Platform\<close> class of \<^verbatim>\<open>batsim_py.resource\<close> is
  not among the sources. Section 3: the platform is the static topology of nodes, each
  owning its resources and its power states. \<open>get_resources\<close> looks the requested ids
  up in the order of the request and \<open>get_node\<close> looks a node up by its id; a lookup miss
  is fatal (section 7).
\<close>

definition all_resources :: "Platform \<Rightarrow> Resource list" where
  "all_resources P = concat (map resources (nodes P))"

fun get_resources :: "Platform \<Rightarrow> nat list \<Rightarrow> error + Resource list" where
  "get_resources P [] = Inr []"
| "get_resources P (i # ids) =
     (case find (\<lambda>r. r_id r = i) (all_resources P) of
        None \<Rightarrow> Inl KeyError
      | Some r \<Rightarrow>
          (case get_resources P ids of Inl e \<Rightarrow> Inl e | Inr rs \<Rightarrow> Inr (r # rs)))"

definition get_node :: "Platform \<Rightarrow> nat \<Rightarrow> error + Node" where
  "get_node P i = (case find (\<lambda>n. n_id n = i) (nodes P) of None \<Rightarrow> Inl KeyError | Some n \<Rightarrow> Inr n)"

section \<open>The self-contained handle\<close>

record GridSimulatorHandler =
  current_time_raw :: rat
  events :: "Event list"
  profiles :: "(string \<times> WorkloadProfile) list"
  submitter_ended :: bool
  platform :: "Platform option"
  is_running :: bool
  jobs :: "(string \<times> Job) list"
  dispatched :: "Event list"

definition GridSimulatorHandler_init :: GridSimulatorHandler where
  "GridSimulatorHandler_init =
     \<lparr> current_time_raw = 0, events = [], profiles = [], submitter_ended = True,
       platform = None, is_running = False, jobs = [], dispatched = [] \<rparr>"

definition current_time :: "GridSimulatorHandler \<Rightarrow> int" where
  "current_time s = \<lfloor>current_time_raw s\<rfloor>"

definition mk_event :: "rat \<Rightarrow> EventData \<Rightarrow> Event" where
  "mk_event t d = \<lparr> timestamp = t, data = d \<rparr>"

definition events_add :: "Event \<Rightarrow> GridSimulatorHandler \<Rightarrow> GridSimulatorHandler" where
  "events_add e s = s\<lparr> events := SortedList_add timestamp e (events s) \<rparr>"

text \<open>
  \<^verbatim>\<open>_dispatch_events\<close>: while the queue is not empty and its first event carries the
  current time, pop it and hand it to the callbacks.
\<close>

fun dispatch_loop :: "int \<Rightarrow> Event list \<Rightarrow> Event list \<Rightarrow> Event list \<times> Event list" where
  "dispatch_loop t [] out = ([], out)"
| "dispatch_loop t (e # es) out =
     (if timestamp e = of_int t then dispatch_loop t es (out @ [e]) else (e # es, out))"

definition dispatch_events :: "GridSimulatorHandler \<Rightarrow> GridSimulatorHandler" where
  "dispatch_events s =
     (case dispatch_loop (current_time s) (events s) (dispatched s) of
        (es, out) \<Rightarrow> s\<lparr> events := es, dispatched := out \<rparr>)"

definition finish :: "GridSimulatorHandler \<Rightarrow> GridSimulatorHandler" where
  "finish s =
     (if \<not> is_running s then s
      else
        let s1 = s\<lparr> is_running := False, submitter_ended := True \<rparr>;
            s2 = s1\<lparr> events := [], profiles := [], jobs := [] \<rparr>;
            s3 = events_add (mk_event (of_int (current_time s2)) SimulationEnds) s2
        in dispatch_events s3)"

definition proceed_simulation :: "GridSimulatorHandler \<Rightarrow> error + GridSimulatorHandler" where
  "proceed_simulation s =
     (if \<not> is_running s then Inl AssertionError
      else if events s = [] \<and> submitter_ended s \<and> jobs s = [] then Inr (finish s)
      else if events s \<noteq> [] then
        Inr (dispatch_events (s\<lparr> current_time_raw := timestamp (hd (events s)) \<rparr>))
      else Inl RuntimeError)"

text \<open>
  \<^verbatim>\<open>start\<close>: the platform description is resolved by an external reader; the model
  receives its result, and \<open>None\<close> when no description is given.
\<close>

definition start :: "Platform option \<Rightarrow> GridSimulatorHandler \<Rightarrow> error + GridSimulatorHandler" where
  "start platform_fn s =
     (if is_running s then Inl AssertionError
      else case platform_fn of
        None \<Rightarrow> Inl AssertionError
      | Some P \<Rightarrow>
          let s1 = s\<lparr> submitter_ended := False, jobs := [], current_time_raw := 0 \<rparr>;
              event = mk_event (of_int (current_time s1)) (SimulationBegins P);
              s2 = s1\<lparr> platform := Some P \<rparr>;
              s3 = events_add event s2;
              s4 = s3\<lparr> is_running := True \<rparr>
          in Inr (dispatch_events s4))"

fun py_min :: "rat list \<Rightarrow> error + rat" where
  "py_min [] = Inl ValueError"
| "py_min (x # xs) = Inr (fold min xs x)"

definition job_runtime :: "WorkloadProfile \<Rightarrow> Job \<Rightarrow> rat \<Rightarrow> error + int" where
  "job_runtime job_profile job min_speed =
     (if ptype job_profile = parallel_homogeneous then
        (if min_speed = 0 then Inl ZeroDivisionError
         else Inr (py_int (cpu job_profile / min_speed)))
      else if ptype job_profile = parallel_homogeneous_total then
        (if res job = 0 then Inl ZeroDivisionError
         else if min_speed = 0 then Inl ZeroDivisionError
         else Inr (py_int ((cpu job_profile / of_int (res job)) / min_speed)))
      else Inl NotImplementedError)"

definition execute_job :: "string \<Rightarrow> nat list \<Rightarrow> GridSimulatorHandler \<Rightarrow> error + GridSimulatorHandler" where
  "execute_job jid alloc s =
     (let allocation = ProcSet alloc;
          event_1 = mk_event (of_int (current_time s)) (JobStarted jid allocation)
      in case map_of (jobs s) jid of
        None \<Rightarrow> Inl KeyError
      | Some job \<Rightarrow>
          let s1 = s\<lparr> jobs := AList.delete jid (jobs s) \<rparr> in
          (case platform s1 of
             None \<Rightarrow> Inl AttributeError
           | Some P \<Rightarrow>
          (case get_resources P alloc of
             Inl e \<Rightarrow> Inl e
           | Inr rs \<Rightarrow>
          (case py_min (map speed rs) of
             Inl e \<Rightarrow> Inl e
           | Inr min_speed \<Rightarrow>
          (case map_of (profiles s1) (profile job) of
             None \<Rightarrow> Inl KeyError
           | Some job_profile \<Rightarrow>
          (case job_runtime job_profile job min_speed of
             Inl e \<Rightarrow> Inl e
           | Inr runtime \<Rightarrow>
               let event_2 = mk_event
                     (of_int (current_time s1) + min (of_int runtime) (walltime job))
                     (JobCompleted jid
                        (if walltime job > of_int runtime then COMPLETED_SUCCESSFULLY
                         else COMPLETED_WALLTIME_REACHED)
                        ''0'' allocation)
               in Inr (events_add event_2 (events_add event_1 s1))))))))"

definition reject_job :: "string \<Rightarrow> GridSimulatorHandler \<Rightarrow> error + GridSimulatorHandler" where
  "reject_job jid s =
     (case map_of (jobs s) jid of
        None \<Rightarrow> Inl KeyError
      | Some _ \<Rightarrow> Inr (s\<lparr> jobs := AList.delete jid (jobs s) \<rparr>))"

definition call_me_later :: "rat \<Rightarrow> GridSimulatorHandler \<Rightarrow> error + GridSimulatorHandler" where
  "call_me_later at0 s =
     (let t = \<lfloor>at0\<rfloor> in
      if \<not> t \<ge> current_time s then Inl AssertionError
      else
        let evs = takeWhile (\<lambda>e. timestamp e \<le> of_int t) (events s) in
        if \<not> list_ex (\<lambda>e. etype e = REQUESTED_CALL \<and> timestamp e = of_int t) evs
        then Inr (events_add (mk_event (of_int t) RequestedCall) s)
        else Inr s)"

text \<open>
  \<^verbatim>\<open>kill_job\<close>: for each id, the index of the first queued completion event of that
  job is searched with \<^verbatim>\<open>next\<close> and the event at that index is popped.
\<close>

fun find_index_ev :: "(Event \<Rightarrow> bool) \<Rightarrow> Event list \<Rightarrow> error + nat" where
  "find_index_ev p [] = Inl StopIteration"
| "find_index_ev p (e # es) =
     (if p e then Inr 0
      else case find_index_ev p es of Inl err \<Rightarrow> Inl err | Inr n \<Rightarrow> Inr (Suc n))"

definition is_completion_of :: "string \<Rightarrow> Event \<Rightarrow> bool" where
  "is_completion_of i e =
     (case data e of JobCompleted j _ _ _ \<Rightarrow> j = i | _ \<Rightarrow> False)"

fun kill_loop :: "string list \<Rightarrow> Event list \<Rightarrow> error + Event list" where
  "kill_loop [] es = Inr es"
| "kill_loop (i # ids) es =
     (case find_index_ev (is_completion_of i) es of
        Inl err \<Rightarrow> Inl err
      | Inr p \<Rightarrow> kill_loop ids (SortedList_pop p es))"

definition kill_job :: "string list \<Rightarrow> GridSimulatorHandler \<Rightarrow> error + GridSimulatorHandler" where
  "kill_job job_ids s =
     (case kill_loop job_ids (events s) of
        Inl err \<Rightarrow> Inl err
      | Inr es \<Rightarrow>
          Inr (events_add (mk_event (of_int (current_time s)) (JobKilled job_ids))
                 (s\<lparr> events := es \<rparr>)))"

definition register_job ::
  "string \<Rightarrow> string \<Rightarrow> int \<Rightarrow> rat \<Rightarrow> string \<Rightarrow> GridSimulatorHandler \<Rightarrow> GridSimulatorHandler" where
  "register_job jid prof r wt usr s =
     (let job = \<lparr> job_id = jid, profile = prof, res = r, walltime = wt, user = usr \<rparr>;
          e = mk_event (of_int (current_time s)) (JobSubmitted job)
      in events_add e (s\<lparr> jobs := AList.update jid job (jobs s) \<rparr>))"

definition register_profile ::
  "string \<Rightarrow> string \<Rightarrow> WorkloadProfile \<Rightarrow> GridSimulatorHandler \<Rightarrow> GridSimulatorHandler" where
  "register_profile workload_name profile_name prof s =
     s\<lparr> profiles := AList.update profile_name prof (profiles s) \<rparr>"

definition notify :: "NotifyType \<Rightarrow> GridSimulatorHandler \<Rightarrow> GridSimulatorHandler" where
  "notify notify_type s =
     (let s1 = (if notify_type = no_more_static_job_to_submit \<or> notify_type = registration_finished
                then s\<lparr> submitter_ended := True \<rparr> else s)
      in events_add (mk_event (of_int (current_time s1)) (NotifyEvent notify_type)) s1)"


subsection \<open>The power-state transition planner of the self-contained handle\<close>

text \<open>
  A \<^verbatim>\<open>defaultdict(list)\<close> is an association list in insertion order of its keys:
  \<^verbatim>\<open>d[k].append(v)\<close> appends to the list stored under \<open>k\<close>, creating it at the end
  when the key is new.
\<close>

definition dd_append :: "'k \<Rightarrow> nat \<Rightarrow> ('k \<times> nat list) list \<Rightarrow> ('k \<times> nat list) list" where
  "dd_append k v d =
     AList.update k ((case map_of d k of None \<Rightarrow> [] | Some vs \<Rightarrow> vs) @ [v]) d"

definition transition_state :: "Node \<Rightarrow> PowerState \<Rightarrow> error + PowerState option" where
  "transition_state n next_ps =
     (if ps_type next_ps = sleep then
        (case py_next (\<lambda>ps. ps_type ps = switching_off) (power_states n) of
           Inl e \<Rightarrow> Inl e | Inr t \<Rightarrow> Inr (Some t))
      else if ps_type next_ps = computation \<and> \<not> is_on n then
        (case py_next (\<lambda>ps. ps_type ps = switching_on) (power_states n) of
           Inl e \<Rightarrow> Inl e | Inr t \<Rightarrow> Inr (Some t))
      else Inr None)"

definition time_to_switch :: "PowerState option \<Rightarrow> error + int" where
  "time_to_switch trans_ps =
     (case trans_ps of
        None \<Rightarrow> Inr 0
      | Some t \<Rightarrow> if ps_speed t = 0 then Inl ZeroDivisionError else Inr (py_int (1 / ps_speed t)))"

text \<open>
  The local variables of \<^verbatim>\<open>set_resources_pstate\<close>. \<open>loop_r\<close> is the variable
  \<^verbatim>\<open>r\<close> of the inner loop, which the source reads after that loop
  (\<^verbatim>\<open>nodes_visited[r.parent_id] = True\<close>): it is unbound until the inner loop has run
  once and keeps its last value afterwards.
\<close>

record PlannerVars =
  timestamps :: "(int \<times> nat list) list"
  transitions :: "(nat \<times> nat list) list"
  nodes_visited :: "nat list"
  loop_r :: "Resource option"

definition PlannerVars_init :: PlannerVars where
  "PlannerVars_init = \<lparr> timestamps = [], transitions = [], nodes_visited = [], loop_r = None \<rparr>"

fun node_loop :: "int \<Rightarrow> PowerState option \<Rightarrow> Resource list \<Rightarrow> PlannerVars \<Rightarrow> PlannerVars" where
  "node_loop tts trans_ps [] v = v"
| "node_loop tts trans_ps (r # rs) v =
     node_loop tts trans_ps rs
       (v\<lparr> timestamps := dd_append tts (r_id r) (timestamps v),
           transitions :=
             (case trans_ps of
                None \<Rightarrow> transitions v
              | Some t \<Rightarrow> dd_append (ps_id t) (r_id r) (transitions v)),
           loop_r := Some r \<rparr>)"

fun planner_loop :: "Platform \<Rightarrow> nat \<Rightarrow> Resource list \<Rightarrow> PlannerVars \<Rightarrow> error + PlannerVars" where
  "planner_loop P pstate [] v = Inr v"
| "planner_loop P pstate (resource # rest) v =
     (if parent_id resource \<in> set (nodes_visited v) then planner_loop P pstate rest v
      else
        case get_node P (parent_id resource) of
          Inl e \<Rightarrow> Inl e
        | Inr n \<Rightarrow>
        (case py_next (\<lambda>ps. ps_id ps = pstate) (power_states n) of
          Inl e \<Rightarrow> Inl e
        | Inr next_ps \<Rightarrow>
        (case transition_state n next_ps of
          Inl e \<Rightarrow> Inl e
        | Inr trans_ps \<Rightarrow>
        (case time_to_switch trans_ps of
          Inl e \<Rightarrow> Inl e
        | Inr tts \<Rightarrow>
            let v1 = node_loop tts trans_ps (resources n) v in
            (case loop_r v1 of
               None \<Rightarrow> Inl UnboundLocalError
             | Some r \<Rightarrow>
                 planner_loop P pstate rest
                   (v1\<lparr> nodes_visited := nodes_visited v1 @ [parent_id r] \<rparr>))))))"

definition transition_events :: "int \<Rightarrow> (nat \<times> nat list) list \<Rightarrow> Event list" where
  "transition_events now trs =
     map (\<lambda>(ps, res_ids). mk_event (of_int now) (ResourcePowerStateChanged (ProcSet res_ids) ps)) trs"

definition final_events :: "int \<Rightarrow> nat \<Rightarrow> (int \<times> nat list) list \<Rightarrow> Event list" where
  "final_events now pstate tss =
     map (\<lambda>(tts, ids). mk_event (of_int now + of_int tts)
                         (ResourcePowerStateChanged (ProcSet ids) pstate)) tss"

definition set_resources_pstate ::
  "nat list \<Rightarrow> nat \<Rightarrow> GridSimulatorHandler \<Rightarrow> error + GridSimulatorHandler" where
  "set_resources_pstate rids pstate s =
     (case platform s of
        None \<Rightarrow> Inl AttributeError
      | Some P \<Rightarrow>
        (case get_resources P rids of
           Inl e \<Rightarrow> Inl e
         | Inr rs \<Rightarrow>
        (case planner_loop P pstate rs PlannerVars_init of
           Inl e \<Rightarrow> Inl e
         | Inr v \<Rightarrow>
             Inr (fold events_add
                    (transition_events (current_time s) (transitions v)
                     @ final_events (current_time s) pstate (timestamps v)) s))))"

subsection \<open>Runs of the self-contained handle\<close>

text \<open>
  A run is the sequence of operations a driver performs on a started handle. An exception
  ends the run.
\<close>

datatype Command =
  Proceed
  | ExecuteJob string "nat list"
  | RejectJob string
  | CallMeLater rat
  | KillJob "string list"
  | RegisterJob string string int rat string
  | RegisterProfile string string WorkloadProfile
  | SetResourcesPstate "nat list" nat
  | Notify NotifyType
  | Finish

fun step :: "Command \<Rightarrow> GridSimulatorHandler \<Rightarrow> error + GridSimulatorHandler" where
  "step Proceed s = proceed_simulation s"
| "step (ExecuteJob jid alloc) s = execute_job jid alloc s"
| "step (RejectJob jid) s = reject_job jid s"
| "step (CallMeLater t) s = call_me_later t s"
| "step (KillJob ids) s = kill_job ids s"
| "step (RegisterJob jid prof r wt usr) s = Inr (register_job jid prof r wt usr s)"
| "step (RegisterProfile w name prof) s = Inr (register_profile w name prof s)"
| "step (SetResourcesPstate rids ps) s = set_resources_pstate rids ps s"
| "step (Notify nt) s = Inr (notify nt s)"
| "step Finish s = Inr (finish s)"

fun run :: "Command list \<Rightarrow> GridSimulatorHandler \<Rightarrow> error + GridSimulatorHandler" where
  "run [] s = Inr s"
| "run (c # cs) s = (case step c s of Inl e \<Rightarrow> Inl e | Inr s1 \<Rightarrow> run cs s1)"


section \<open>The remote handle\<close>

text \<open>
  The remote handle queues requests for the external simulator process and exchanges one
  message with it at every \<^verbatim>\<open>proceed_simulation\<close>. The process and the channel are
  outside the model: the handle records whether the process handle is set
  (\<open>b_simulator\<close>), every message passed to \<^verbatim>\<open>network.send\<close> (\<open>b_sent\<close>) and the calls
  of \<^verbatim>\<open>network.close\<close> (\<open>b_closes\<close>); the reply of the process is an argument.
\<close>

datatype RequestType =
  EXECUTE_JOB | REJECT_JOB | CALL_ME_LATER | KILL_JOB | REGISTER_JOB | REGISTER_PROFILE
  | SET_RESOURCE_STATE | CHANGE_JOB_STATE | NOTIFY_REQUEST

datatype RequestData =
  ExecuteJobRequest string "nat list"
  | RejectJobRequest string
  | CallMeLaterRequest rat
  | KillJobRequest "string list"
  | RegisterJobRequest Job
  | RegisterProfileRequest string string WorkloadProfile
  | SetResourceStateRequest "nat list" nat
  | ChangeJobStateRequest string string string
  | NotifyRequest NotifyType

record Request =
  rq_timestamp :: rat
  rq_data :: RequestData

fun rq_type :: "Request \<Rightarrow> RequestType" where
  "rq_type r =
     (case rq_data r of
        ExecuteJobRequest _ _ \<Rightarrow> EXECUTE_JOB
      | RejectJobRequest _ \<Rightarrow> REJECT_JOB
      | CallMeLaterRequest _ \<Rightarrow> CALL_ME_LATER
      | KillJobRequest _ \<Rightarrow> KILL_JOB
      | RegisterJobRequest _ \<Rightarrow> REGISTER_JOB
      | RegisterProfileRequest _ _ _ \<Rightarrow> REGISTER_PROFILE
      | SetResourceStateRequest _ _ \<Rightarrow> SET_RESOURCE_STATE
      | ChangeJobStateRequest _ _ _ \<Rightarrow> CHANGE_JOB_STATE
      | NotifyRequest _ \<Rightarrow> NOTIFY_REQUEST)"

definition mk_request :: "rat \<Rightarrow> RequestData \<Rightarrow> Request" where
  "mk_request t d = \<lparr> rq_timestamp = t, rq_data = d \<rparr>"

text \<open>
  Modelled from the spec: \<^verbatim>\<open>SetResourceStateRequest.update_resources\<close> belongs to
  \<^verbatim>\<open>batsim_py.network\<close>, not among the sources. Section 4.5: a merged request carries
  the union of the resource-id sets. The method receives the resource ids only, so the
  target state of the request is the one it was created with.
\<close>

definition update_resources :: "nat list \<Rightarrow> Request \<Rightarrow> Request" where
  "update_resources rids r =
     (case rq_data r of
        SetResourceStateRequest old ps \<Rightarrow>
          r\<lparr> rq_data := SetResourceStateRequest (ProcSet (old @ rids)) ps \<rparr>
      | _ \<Rightarrow> r)"

record Message =
  msg_now :: rat
  msg_requests :: "Request list"

record BatsimSimulatorHandler =
  b_current_time_raw :: rat
  b_requests :: "Request list"
  b_simulator :: bool
  b_platform :: "Platform option"
  b_dispatched :: "Event list"
  b_sent :: "Message list"
  b_closes :: nat

definition BatsimSimulatorHandler_init :: BatsimSimulatorHandler where
  "BatsimSimulatorHandler_init =
     \<lparr> b_current_time_raw = 0, b_requests = [], b_simulator = False, b_platform = None,
       b_dispatched = [], b_sent = [], b_closes = 0 \<rparr>"

definition b_is_running :: "BatsimSimulatorHandler \<Rightarrow> bool" where
  "b_is_running s = b_simulator s"

definition b_current_time :: "BatsimSimulatorHandler \<Rightarrow> int" where
  "b_current_time s = \<lfloor>b_current_time_raw s\<rfloor>"

definition b_ack :: "BatsimSimulatorHandler \<Rightarrow> BatsimSimulatorHandler" where
  "b_ack s =
     s\<lparr> b_sent := b_sent s @ [\<lparr> msg_now = of_int (b_current_time s), msg_requests = [] \<rparr>] \<rparr>"

definition b_close_simulator :: "BatsimSimulatorHandler \<Rightarrow> BatsimSimulatorHandler" where
  "b_close_simulator s = (if b_simulator s then s\<lparr> b_simulator := False \<rparr> else s)"

text \<open>
  \<^verbatim>\<open>on_simulation_ends\<close> is the callback the constructor registers for
  \<^verbatim>\<open>SIMULATION_ENDS\<close>, ahead of every callback of the driver.
\<close>

definition on_simulation_ends :: "BatsimSimulatorHandler \<Rightarrow> BatsimSimulatorHandler" where
  "on_simulation_ends s =
     (let s1 = (if b_simulator s then b_close_simulator (b_ack s) else s)
      in s1\<lparr> b_requests := [], b_closes := Suc (b_closes s1) \<rparr>)"

fun b_dispatch_events :: "Event list \<Rightarrow> BatsimSimulatorHandler \<Rightarrow> BatsimSimulatorHandler" where
  "b_dispatch_events [] s = s"
| "b_dispatch_events (e # es) s =
     (let s1 = (if etype e = SIMULATION_ENDS then on_simulation_ends s else s)
      in b_dispatch_events es (s1\<lparr> b_dispatched := b_dispatched s1 @ [e] \<rparr>))"

definition b_append_request :: "Request \<Rightarrow> BatsimSimulatorHandler \<Rightarrow> BatsimSimulatorHandler" where
  "b_append_request r s = s\<lparr> b_requests := SortedList_add rq_timestamp r (b_requests s) \<rparr>"

definition b_start :: "Platform option \<Rightarrow> BatsimSimulatorHandler \<Rightarrow> error + BatsimSimulatorHandler" where
  "b_start platform_fn s =
     (if b_is_running s then Inl AssertionError
      else case platform_fn of
        None \<Rightarrow> Inl AssertionError
      | Some P \<Rightarrow>
          let s1 = s\<lparr> b_simulator := True, b_current_time_raw := 0 \<rparr>;
              event = mk_event (of_int (b_current_time s1)) (SimulationBegins P);
              s2 = s1\<lparr> b_platform := Some P \<rparr>
          in Inr (b_dispatch_events [event] s2))"

definition b_finish :: "BatsimSimulatorHandler \<Rightarrow> BatsimSimulatorHandler" where
  "b_finish s =
     (let s1 = b_close_simulator s
      in b_dispatch_events [mk_event (of_int (b_current_time s1)) SimulationEnds] s1)"

definition b_send_requests :: "BatsimSimulatorHandler \<Rightarrow> BatsimSimulatorHandler" where
  "b_send_requests s =
     (let msg = \<lparr> msg_now = of_int (b_current_time s), msg_requests = b_requests s \<rparr>
      in s\<lparr> b_requests := [], b_sent := b_sent s @ [msg] \<rparr>)"

text \<open>
  \<^verbatim>\<open>proceed_simulation\<close>: send the queued requests, then receive the reply
  \<open>(now, evs)\<close> of the process, take its time and dispatch its events.
\<close>

definition b_proceed_simulation ::
  "rat \<times> Event list \<Rightarrow> BatsimSimulatorHandler \<Rightarrow> error + BatsimSimulatorHandler" where
  "b_proceed_simulation reply s =
     (if \<not> b_is_running s then Inl AssertionError
      else
        let s1 = b_send_requests s;
            s2 = s1\<lparr> b_current_time_raw := fst reply \<rparr>
        in Inr (b_dispatch_events (snd reply) s2))"

definition b_execute_job :: "string \<Rightarrow> nat list \<Rightarrow> BatsimSimulatorHandler \<Rightarrow> BatsimSimulatorHandler" where
  "b_execute_job jid alloc s =
     (let request = mk_request (of_int (b_current_time s)) (ExecuteJobRequest jid (ProcSet alloc));
          s1 = b_dispatch_events
                 [mk_event (of_int (b_current_time s)) (JobStarted jid (ProcSet alloc))] s
      in b_append_request request s1)"

definition b_reject_job :: "string \<Rightarrow> BatsimSimulatorHandler \<Rightarrow> BatsimSimulatorHandler" where
  "b_reject_job jid s =
     b_append_request (mk_request (of_int (b_current_time s)) (RejectJobRequest jid)) s"

definition b_call_me_later :: "rat \<Rightarrow> BatsimSimulatorHandler \<Rightarrow> BatsimSimulatorHandler" where
  "b_call_me_later at0 s =
     b_append_request
       (mk_request (of_int (b_current_time s)) (CallMeLaterRequest (of_int \<lfloor>at0\<rfloor> + 9 / 10000))) s"

definition b_kill_job :: "string list \<Rightarrow> BatsimSimulatorHandler \<Rightarrow> BatsimSimulatorHandler" where
  "b_kill_job job_ids s =
     b_append_request (mk_request (of_int (b_current_time s)) (KillJobRequest job_ids)) s"

definition b_register_job ::
  "string \<Rightarrow> string \<Rightarrow> int \<Rightarrow> rat \<Rightarrow> string \<Rightarrow> BatsimSimulatorHandler \<Rightarrow> BatsimSimulatorHandler" where
  "b_register_job jid prof r wt usr s =
     (let job = \<lparr> job_id = jid, profile = prof, res = r, walltime = wt, user = usr \<rparr>;
          s1 = b_append_request (mk_request (of_int (b_current_time s)) (RegisterJobRequest job)) s
      in b_dispatch_events [mk_event (of_int (b_current_time s1)) (JobSubmitted job)] s1)"

definition b_register_profile ::
  "string \<Rightarrow> string \<Rightarrow> WorkloadProfile \<Rightarrow> BatsimSimulatorHandler \<Rightarrow> BatsimSimulatorHandler" where
  "b_register_profile workload_name profile_name prof s =
     b_append_request
       (mk_request (of_int (b_current_time s))
          (RegisterProfileRequest workload_name profile_name prof)) s"

text \<open>
  \<^verbatim>\<open>set_resources_pstate\<close>, first part: the scan of the request buffer that merges
  the call into the first queued \<^verbatim>\<open>SET_RESOURCE_STATE\<close> request of the current time,
  and the append when there is none.
\<close>

fun merge_loop :: "int \<Rightarrow> nat list \<Rightarrow> Request list \<Rightarrow> Request list option" where
  "merge_loop now rids [] = None"
| "merge_loop now rids (req # reqs) =
     (if rq_timestamp req = of_int now \<and> rq_type req = SET_RESOURCE_STATE
      then Some (update_resources rids req # reqs)
      else map_option (Cons req) (merge_loop now rids reqs))"

definition b_queue_pstate_request ::
  "nat list \<Rightarrow> nat \<Rightarrow> BatsimSimulatorHandler \<Rightarrow> BatsimSimulatorHandler" where
  "b_queue_pstate_request rids pstate s =
     (case merge_loop (b_current_time s) rids (b_requests s) of
        Some reqs \<Rightarrow> s\<lparr> b_requests := reqs \<rparr>
      | None \<Rightarrow>
          b_append_request
            (mk_request (of_int (b_current_time s)) (SetResourceStateRequest rids pstate)) s)"

text \<open>
  Second part: the transition events, dispatched at once. The inner loop over the
  resources of a node runs only when a transition is needed; the variable \<^verbatim>\<open>r\<close> read
  after it is the one that loop last bound.
\<close>

fun b_node_loop :: "PowerState \<Rightarrow> Resource list \<Rightarrow> PlannerVars \<Rightarrow> PlannerVars" where
  "b_node_loop t [] v = v"
| "b_node_loop t (r # rs) v =
     b_node_loop t rs
       (v\<lparr> transitions := dd_append (ps_id t) (r_id r) (transitions v), loop_r := Some r \<rparr>)"

fun b_planner_loop :: "Platform \<Rightarrow> nat \<Rightarrow> Resource list \<Rightarrow> PlannerVars \<Rightarrow> error + PlannerVars" where
  "b_planner_loop P pstate [] v = Inr v"
| "b_planner_loop P pstate (resource # rest) v =
     (if parent_id resource \<in> set (nodes_visited v) then b_planner_loop P pstate rest v
      else
        case get_node P (parent_id resource) of
          Inl e \<Rightarrow> Inl e
        | Inr n \<Rightarrow>
        (case py_next (\<lambda>ps. ps_id ps = pstate) (power_states n) of
          Inl e \<Rightarrow> Inl e
        | Inr next_ps \<Rightarrow>
        (case transition_state n next_ps of
          Inl e \<Rightarrow> Inl e
        | Inr trans_ps \<Rightarrow>
            let v1 = (case trans_ps of None \<Rightarrow> v | Some t \<Rightarrow> b_node_loop t (resources n) v) in
            (case loop_r v1 of
               None \<Rightarrow> Inl UnboundLocalError
             | Some r \<Rightarrow>
                 b_planner_loop P pstate rest
                   (v1\<lparr> nodes_visited := nodes_visited v1 @ [parent_id r] \<rparr>)))))"

definition b_set_resources_pstate ::
  "nat list \<Rightarrow> nat \<Rightarrow> BatsimSimulatorHandler \<Rightarrow> error + BatsimSimulatorHandler" where
  "b_set_resources_pstate rids pstate s =
     (let s1 = b_queue_pstate_request rids pstate s in
      case b_platform s1 of
        None \<Rightarrow> Inl AttributeError
      | Some P \<Rightarrow>
        (case get_resources P rids of
           Inl e \<Rightarrow> Inl e
         | Inr rs \<Rightarrow>
        (case b_planner_loop P pstate rs PlannerVars_init of
           Inl e \<Rightarrow> Inl e
         | Inr v \<Rightarrow>
             Inr (b_dispatch_events
                    (transition_events (b_current_time s1) (transitions v)) s1))))"

definition b_change_job_state ::
  "string \<Rightarrow> string \<Rightarrow> string \<Rightarrow> BatsimSimulatorHandler \<Rightarrow> BatsimSimulatorHandler" where
  "b_change_job_state jid job_state kill_reason s =
     b_append_request
       (mk_request (of_int (b_current_time s)) (ChangeJobStateRequest jid job_state kill_reason)) s"

definition b_notify :: "NotifyType \<Rightarrow> BatsimSimulatorHandler \<Rightarrow> BatsimSimulatorHandler" where
  "b_notify notify_type s =
     (let s1 = b_append_request (mk_request (of_int (b_current_time s)) (NotifyRequest notify_type)) s
      in b_dispatch_events [mk_event (of_int (b_current_time s1)) (NotifyEvent notify_type)] s1)"


section \<open>Example inputs\<close>

text \<open>
  One node with two resources of speed 2 and four power states, and a running handle at
  time 7 with one pending job of the profile \<open>p\<close> (\<open>parallel_homogeneous\<close>, work 100).
\<close>

definition ex_platform :: Platform where
  "ex_platform =
     \<lparr> nodes = [\<lparr> n_id = 0,
                  power_states =
                    [\<lparr> ps_id = 0, ps_type = computation, ps_speed = 1 \<rparr>,
                     \<lparr> ps_id = 1, ps_type = sleep, ps_speed = 1 \<rparr>,
                     \<lparr> ps_id = 2, ps_type = switching_off, ps_speed = 1 / 4 \<rparr>,
                     \<lparr> ps_id = 3, ps_type = switching_on, ps_speed = 1 / 2 \<rparr>],
                  resources =
                    [\<lparr> r_id = 0, parent_id = 0, speed = 2 \<rparr>,
                     \<lparr> r_id = 1, parent_id = 0, speed = 2 \<rparr>],
                  is_on = True \<rparr>] \<rparr>"

definition ex_grid :: "rat \<Rightarrow> GridSimulatorHandler" where
  "ex_grid wt =
     \<lparr> current_time_raw = 7, events = [],
       profiles = [(''p'', \<lparr> ptype = parallel_homogeneous, cpu = 100 \<rparr>)],
       submitter_ended = False, platform = Some ex_platform, is_running = True,
       jobs = [(''j1'', \<lparr> job_id = ''j1'', profile = ''p'', res = 1, walltime = wt, user = '''' \<rparr>)],
       dispatched = [] \<rparr>"


text \<open>
  A running handle at time 10 whose queue holds the completion of job \<open>j1\<close> at time 50,
  and the handle reached from the first example once that job has run to completion.
\<close>

definition ex_pending :: GridSimulatorHandler where
  "ex_pending =
     \<lparr> current_time_raw = 10,
       events = [mk_event 50 (JobCompleted ''j1'' COMPLETED_SUCCESSFULLY ''0'' [0])],
       profiles = [], submitter_ended = False, platform = Some ex_platform,
       is_running = True, jobs = [], dispatched = [] \<rparr>"

definition ex_completed :: GridSimulatorHandler where
  "ex_completed =
     \<lparr> current_time_raw = 57, events = [],
       profiles = [(''p'', \<lparr> ptype = parallel_homogeneous, cpu = 100 \<rparr>)],
       submitter_ended = False, platform = Some ex_platform, is_running = True,
       jobs = [],
       dispatched = [mk_event 7 (JobStarted ''j1'' [0]),
                     mk_event 57 (JobCompleted ''j1'' COMPLETED_SUCCESSFULLY ''0'' [0])] \<rparr>"

text \<open>
  The handle right after \<^verbatim>\<open>start\<close> on the example platform: running, the queue empty
  (the begin event was dispatched), the workload feeder not finished.
\<close>

definition ex_started :: GridSimulatorHandler where
  "ex_started =
     \<lparr> current_time_raw = 0, events = [], profiles = [], submitter_ended = False,
       platform = Some ex_platform, is_running = True, jobs = [],
       dispatched = [mk_event 0 (SimulationBegins ex_platform)] \<rparr>"

text \<open>
  A running handle at time 3 with three queued events, two of them at time 5.
\<close>

definition ex_queue :: GridSimulatorHandler where
  "ex_queue =
     \<lparr> current_time_raw = 3,
       events = [mk_event 5 RequestedCall,
                 mk_event 5 (JobKilled [''j2'']),
                 mk_event 9 RequestedCall],
       profiles = [], submitter_ended = False, platform = Some ex_platform,
       is_running = True, jobs = [], dispatched = [] \<rparr>"

text \<open>
  A requested-call event at the integer time \<open>t\<close>.
\<close>

definition requested_call_at :: "int \<Rightarrow> Event \<Rightarrow> bool" where
  "requested_call_at t e = (etype e = REQUESTED_CALL \<and> timestamp e = of_int t)"

text \<open>
  A running remote handle at time 10 with an empty request buffer.
\<close>

definition ex_remote :: BatsimSimulatorHandler where
  "ex_remote =
     \<lparr> b_current_time_raw = 10, b_requests = [], b_simulator = True,
       b_platform = Some ex_platform, b_dispatched = [], b_sent = [], b_closes = 0 \<rparr>"

text \<open>
  A queued \<open>SET_RESOURCE_STATE\<close> request of the time \<open>now\<close>: what the merge scan of the
  remote \<^verbatim>\<open>set_resources_pstate\<close> looks for.
\<close>

definition pstate_request_at :: "int \<Rightarrow> Request \<Rightarrow> bool" where
  "pstate_request_at now r = (rq_timestamp r = of_int now \<and> rq_type r = SET_RESOURCE_STATE)"

text \<open>
  A platform whose node has two sleep states (1 and 4), and a running remote handle on it,
  at time 10 with an empty request buffer.
\<close>

definition ex_platform_sleep :: Platform where
  "ex_platform_sleep =
     \<lparr> nodes = [\<lparr> n_id = 0,
                  power_states =
                    [\<lparr> ps_id = 0, ps_type = computation, ps_speed = 1 \<rparr>,
                     \<lparr> ps_id = 1, ps_type = sleep, ps_speed = 1 \<rparr>,
                     \<lparr> ps_id = 4, ps_type = sleep, ps_speed = 1 \<rparr>,
                     \<lparr> ps_id = 2, ps_type = switching_off, ps_speed = 1 / 4 \<rparr>,
                     \<lparr> ps_id = 3, ps_type = switching_on, ps_speed = 1 / 2 \<rparr>],
                  resources =
                    [\<lparr> r_id = 0, parent_id = 0, speed = 2 \<rparr>,
                     \<lparr> r_id = 1, parent_id = 0, speed = 2 \<rparr>],
                  is_on = True \<rparr>] \<rparr>"

definition ex_remote_sleep :: BatsimSimulatorHandler where
  "ex_remote_sleep =
     \<lparr> b_current_time_raw = 10, b_requests = [], b_simulator = True,
       b_platform = Some ex_platform_sleep, b_dispatched = [], b_sent = [], b_closes = 0 \<rparr>"

text \<open>
  The handle after \<^verbatim>\<open>set_resources_pstate([0], 1)\<close>, and after a second call
  \<^verbatim>\<open>set_resources_pstate([1], 4)\<close> at the same time.
\<close>

definition ex_remote_sleep1 :: BatsimSimulatorHandler where
  "ex_remote_sleep1 =
     ex_remote_sleep
       \<lparr> b_requests := [mk_request 10 (SetResourceStateRequest [0] 1)],
         b_dispatched := [mk_event 10 (ResourcePowerStateChanged [0, 1] 2)] \<rparr>"

definition ex_remote_sleep2 :: BatsimSimulatorHandler where
  "ex_remote_sleep2 =
     ex_remote_sleep
       \<lparr> b_requests := [mk_request 10 (SetResourceStateRequest [0, 1] 1)],
         b_dispatched := [mk_event 10 (ResourcePowerStateChanged [0, 1] 2),
                          mk_event 10 (ResourcePowerStateChanged [0, 1] 2)] \<rparr>"

text \<open>
  The target power state a request carries, if it is a \<open>SET_RESOURCE_STATE\<close> request.
\<close>

definition rq_target :: "Request \<Rightarrow> nat option" where
  "rq_target r = (case rq_data r of SetResourceStateRequest _ ps \<Rightarrow> Some ps | _ \<Rightarrow> None)"

subsection \<open>Well-formed inputs and the invariant of a run\<close>

text \<open>
  The inputs of a run as the data model of the spec has them: timestamps are integers
  that never lie in the past, so a walltime is a non-negative integer, and work amounts,
  resource counts and speeds are not negative.
\<close>

definition integral :: "rat \<Rightarrow> bool" where
  "integral x = (of_int \<lfloor>x\<rfloor> = x)"

definition wf_platform :: "Platform \<Rightarrow> bool" where
  "wf_platform P =
     (\<forall>n\<in>set (nodes P).
        (\<forall>ps\<in>set (power_states n). 0 \<le> ps_speed ps) \<and> (\<forall>r\<in>set (resources n). 0 \<le> speed r))"

definition wf_job :: "Job \<Rightarrow> bool" where
  "wf_job j = (0 \<le> walltime j \<and> integral (walltime j) \<and> 0 \<le> res j)"


text \<open>
  The invariant on the clock, the queue and the record of dispatched events: the queue is
  sorted, holds integer timestamps and nothing before the current time; the dispatched
  events have non-decreasing floored timestamps, none after the current time, and the
  last one carries the current time.
\<close>

definition time_inv :: "GridSimulatorHandler \<Rightarrow> bool" where
  "time_inv s =
     (sorted (map timestamp (events s))
      \<and> (\<forall>e\<in>set (events s). of_int (current_time s) \<le> timestamp e
                               \<and> integral (timestamp e))
      \<and> sorted (map (\<lambda>e. \<lfloor>timestamp e\<rfloor>) (dispatched s))
      \<and> (\<forall>e\<in>set (dispatched s). \<lfloor>timestamp e\<rfloor> \<le> current_time s)
      \<and> dispatched s \<noteq> []
      \<and> \<lfloor>timestamp (last (dispatched s))\<rfloor> = current_time s)"

definition data_inv :: "GridSimulatorHandler \<Rightarrow> bool" where
  "data_inv s =
     ((\<forall>j\<in>snd ` set (jobs s). wf_job j)
      \<and> (\<forall>p\<in>snd ` set (profiles s). 0 \<le> cpu p)
      \<and> (\<forall>P. platform s = Some P \<longrightarrow> wf_platform P))"







section \<open>Verified properties\<close>

subsection \<open>Job execution model\<close>






subsection \<open>Killing jobs\<close>

lemma find_index_ev_unique:
  "length (filter p es) = 1 \<Longrightarrow>
     \<exists>n. find_index_ev p es = Inr n \<and> SortedList_pop n es = filter (\<lambda>e. \<not> p e) es"
proof (induction es)
  case Nil
  then show ?case by simp
next
  case (Cons e es)
  show ?case
  proof (cases "p e")
    case True
    with Cons.prems have "filter p es = []" by simp
    then have "filter (\<lambda>e. \<not> p e) es = es"
      by (simp add: filter_empty_conv)
    with True show ?thesis by (simp add: SortedList_pop_def)
  next
    case False
    with Cons.prems have "length (filter p es) = 1" by simp
    from Cons.IH [OF this] obtain n where
      "find_index_ev p es = Inr n" "SortedList_pop n es = filter (\<lambda>e. \<not> p e) es" by blast
    with False show ?thesis by (simp add: SortedList_pop_def)
  qed
qed

lemma is_completion_of_distinct:
  "is_completion_of j e \<Longrightarrow> i \<noteq> j \<Longrightarrow> \<not> is_completion_of i e"
  by (auto simp: is_completion_of_def split: EventData.splits)

lemma filter_completion_other:
  "i \<noteq> j \<Longrightarrow>
     filter (is_completion_of j) (filter (\<lambda>e. \<not> is_completion_of i e) es) =
     filter (is_completion_of j) es"
  by (induction es) (auto dest: is_completion_of_distinct)

lemma kill_loop_removes:
  "distinct ids \<Longrightarrow> \<forall>i\<in>set ids. length (filter (is_completion_of i) es) = 1 \<Longrightarrow>
     kill_loop ids es = Inr (filter (\<lambda>e. \<forall>i\<in>set ids. \<not> is_completion_of i e) es)"
proof (induction ids arbitrary: es)
  case Nil
  then show ?case by simp
next
  case (Cons i ids)
  from Cons.prems have "length (filter (is_completion_of i) es) = 1" by simp
  from find_index_ev_unique [OF this] obtain n where
    n: "find_index_ev (is_completion_of i) es = Inr n"
       "SortedList_pop n es = filter (\<lambda>e. \<not> is_completion_of i e) es" by blast
  have "\<forall>j\<in>set ids. length (filter (is_completion_of j)
            (filter (\<lambda>e. \<not> is_completion_of i e) es)) = 1"
  proof
    fix j assume j: "j \<in> set ids"
    with Cons.prems(1) have "i \<noteq> j" by auto
    from filter_completion_other [OF this, of es] Cons.prems(2) j
    show "length (filter (is_completion_of j)
            (filter (\<lambda>e. \<not> is_completion_of i e) es)) = 1"
      by (simp del: filter_filter)
  qed
  with Cons.IH [of "filter (\<lambda>e. \<not> is_completion_of i e) es"] Cons.prems(1)
  have "kill_loop ids (filter (\<lambda>e. \<not> is_completion_of i e) es) =
          Inr (filter (\<lambda>e. \<forall>j\<in>set ids. \<not> is_completion_of j e)
                 (filter (\<lambda>e. \<not> is_completion_of i e) es))" by simp
  with n show ?case by (simp add: conj_commute)
qed

lemma find_index_ev_none:
  "\<not> list_ex p es \<Longrightarrow> find_index_ev p es = Inl StopIteration"
  by (induction es) auto

lemma find_index_ev_error: "find_index_ev p es = Inl err \<Longrightarrow> err = StopIteration"
  by (induction es arbitrary: err) (auto split: if_splits sum.splits)

lemma list_ex_pop: "list_ex p (SortedList_pop n es) \<Longrightarrow> list_ex p es"
  by (auto simp: SortedList_pop_def list_ex_iff dest: in_set_takeD in_set_dropD)

lemma kill_loop_missing:
  "\<exists>i\<in>set ids. \<not> list_ex (is_completion_of i) es \<Longrightarrow> kill_loop ids es = Inl StopIteration"
proof (induction ids arbitrary: es)
  case Nil
  then show ?case by simp
next
  case (Cons i ids)
  show ?case
  proof (cases "find_index_ev (is_completion_of i) es")
    case (Inl err)
    then show ?thesis using find_index_ev_error [OF Inl] by simp
  next
    case (Inr n)
    then have "list_ex (is_completion_of i) es"
      using find_index_ev_none [of "is_completion_of i" es] by auto
    with Cons.prems obtain j where j: "j \<in> set ids" "\<not> list_ex (is_completion_of j) es"
      by auto
    then have "\<not> list_ex (is_completion_of j) (SortedList_pop n es)"
      using list_ex_pop by blast
    with j(1) have "kill_loop ids (SortedList_pop n es) = Inl StopIteration"
      by (intro Cons.IH) blast
    with Inr show ?thesis by simp
  qed
qed

text \<open>
  Claim C2, as the code has it. When the ids are listed once and each has exactly one
  completion event pending in the queue, \<^verbatim>\<open>kill_job\<close> removes those completion events,
  leaves every other event in place and adds one \<open>JobKilled\<close> event at the current time that
  lists all the ids. When some listed id has no completion event in the queue (it was
  already dispatched, or never scheduled), the search \<^verbatim>\<open>next(...)\<close> finds nothing and
  the call ends with \<^verbatim>\<open>StopIteration\<close>.
\<close>

theorem kill_job_cancels:
  "(distinct ids \<and> (\<forall>i\<in>set ids. length (filter (is_completion_of i) (events s)) = 1) \<longrightarrow>
      kill_job ids s =
        Inr (s\<lparr> events :=
                  SortedList_add timestamp
                    (mk_event (of_int (current_time s)) (JobKilled ids))
                    (filter (\<lambda>e. \<forall>i\<in>set ids. \<not> is_completion_of i e) (events s)) \<rparr>))
   \<and> ((\<exists>i\<in>set ids. \<not> list_ex (is_completion_of i) (events s)) \<longrightarrow>
      kill_job ids s = Inl StopIteration)"
  by (auto simp: kill_job_def events_add_def current_time_def kill_loop_removes
      kill_loop_missing)


theorem kill_job_cancels_witness:
  "distinct [''j1''] \<and> length (filter (is_completion_of ''j1'') (events ex_pending)) = 1
   \<and> kill_job [''j1''] ex_pending =
         Inr (ex_pending\<lparr> events := [mk_event 10 (JobKilled [''j1''])] \<rparr>)
   \<and> \<not> list_ex (is_completion_of ''j1'') (events ex_completed)
   \<and> kill_job [''j1''] ex_completed = Inl StopIteration"
proof -
  have a: "distinct [''j1''] \<and>
     (\<forall>i\<in>set [''j1'']. length (filter (is_completion_of i) (events ex_pending)) = 1)"
    by (simp add: ex_pending_def is_completion_of_def mk_event_def)
  have b: "\<exists>i\<in>set [''j1'']. \<not> list_ex (is_completion_of i) (events ex_completed)"
    by (simp add: ex_completed_def)
  have c: "filter (\<lambda>e. \<forall>i\<in>set [''j1'']. \<not> is_completion_of i e) (events ex_pending) = []"
    by (simp add: ex_pending_def is_completion_of_def mk_event_def)
  have t: "current_time ex_pending = 10"
    by (simp add: ex_pending_def current_time_def)
  from kill_job_cancels [of "[''j1'']" ex_pending] a
  have "kill_job [''j1''] ex_pending =
          Inr (ex_pending\<lparr> events := [mk_event 10 (JobKilled [''j1''])] \<rparr>)"
    by (simp only: c t) simp
  moreover from kill_job_cancels [of "[''j1'']" ex_completed] b
  have "kill_job [''j1''] ex_completed = Inl StopIteration"
    by blast
  ultimately show ?thesis
    using a b by simp
qed

text \<open>
  Claim C2, counterexample to the claim as stated. Killing a job after its completion was
  dispatched is not a no-op: the job of the first
  example is executed and runs to completion, and killing it then raises.
\<close>

theorem kill_job_after_completion_counterexample:
  "run [ExecuteJob ''j1'' [0], Proceed, Proceed] (ex_grid 1000) = Inr ex_completed
   \<and> list_ex (is_completion_of ''j1'') (dispatched ex_completed)
   \<and> kill_job [''j1''] ex_completed = Inl StopIteration
   \<and> kill_job [''j1''] ex_completed \<noteq> Inr ex_completed"
  by code_simp

subsection \<open>The step primitive\<close>

lemma dispatch_loop_eq:
  "dispatch_loop t es out =
     (dropWhile (\<lambda>e. timestamp e = of_int t) es, out @ takeWhile (\<lambda>e. timestamp e = of_int t) es)"
  by (induction es arbitrary: out) auto

lemma sorted_takeWhile_eq_filter:
  "sorted (map f xs) \<Longrightarrow> \<forall>x\<in>set xs. c \<le> f x \<Longrightarrow>
     takeWhile (\<lambda>x. f x = c) xs = filter (\<lambda>x. f x = c) xs"
proof (induction xs)
  case Nil
  then show ?case by simp
next
  case (Cons x xs)
  show ?case
  proof (cases "f x = c")
    case True
    with Cons show ?thesis by simp
  next
    case False
    with Cons.prems have "c < f x" by auto
    with Cons.prems(1) have "\<forall>y\<in>set xs. c < f y" by fastforce
    then have "filter (\<lambda>x. f x = c) xs = []"
      by (auto simp: filter_empty_conv)
    with False show ?thesis by simp
  qed
qed

lemma sorted_dropWhile_eq_filter:
  "sorted (map f xs) \<Longrightarrow> \<forall>x\<in>set xs. c \<le> f x \<Longrightarrow>
     dropWhile (\<lambda>x. f x = c) xs = filter (\<lambda>x. f x \<noteq> c) xs"
proof (induction xs)
  case Nil
  then show ?case by simp
next
  case (Cons x xs)
  show ?case
  proof (cases "f x = c")
    case True
    with Cons show ?thesis by simp
  next
    case False
    with Cons.prems have "c < f x" by auto
    with Cons.prems(1) have "\<forall>y\<in>set xs. c < f y" by fastforce
    then have "filter (\<lambda>x. f x \<noteq> c) xs = xs"
      by (auto simp: filter_id_conv)
    with False show ?thesis by simp
  qed
qed

lemma sorted_hd_least:
  "sorted (map f xs) \<Longrightarrow> xs \<noteq> [] \<Longrightarrow> \<forall>x\<in>set xs. f (hd xs) \<le> f x"
  by (cases xs) auto

lemma dispatch_events_sorted:
  assumes "sorted (map timestamp (events s))" "\<forall>e\<in>set (events s). of_int (current_time s) \<le> timestamp e"
  shows "dispatch_events s =
           s\<lparr> events := filter (\<lambda>e. timestamp e \<noteq> of_int (current_time s)) (events s),
               dispatched := dispatched s @
                  filter (\<lambda>e. timestamp e = of_int (current_time s)) (events s) \<rparr>"
  using assms
  by (simp add: dispatch_events_def dispatch_loop_eq sorted_takeWhile_eq_filter
      sorted_dropWhile_eq_filter)

lemma finish_running:
  "is_running s \<Longrightarrow>
     finish s = s\<lparr> is_running := False, submitter_ended := True, events := [], profiles := [],
                   jobs := [],
                   dispatched := dispatched s @ [mk_event (of_int (current_time s)) SimulationEnds] \<rparr>"
  by (simp add: finish_def Let_def events_add_def dispatch_events_def current_time_def
      mk_event_def)

text \<open>
  Claim C3, as the code has it. \<^verbatim>\<open>proceed_simulation\<close> on a handle that is not running
  fails its assertion. On a running handle with no queued event: when no job is pending
  and the feeder has signalled completion, the handle finishes (it stops running and
  dispatches \<open>SimulationEnds\<close>); otherwise the call raises \<^verbatim>\<open>RuntimeError\<close>. On a running
  handle whose (sorted) queue is not empty and whose first event has an integer timestamp
  \<open>t\<close>, the current time becomes \<open>t\<close> and exactly the queued events with timestamp \<open>t\<close> are
  dispatched, in queue order; the others stay queued.
\<close>

theorem proceed_simulation_cases:
  "(\<not> is_running s \<longrightarrow> proceed_simulation s = Inl AssertionError)
   \<and> (is_running s \<and> events s = [] \<and> submitter_ended s \<and> jobs s = [] \<longrightarrow>
        proceed_simulation s = Inr (finish s) \<and> \<not> is_running (finish s)
        \<and> dispatched (finish s) =
            dispatched s @ [mk_event (of_int (current_time s)) SimulationEnds])
   \<and> (is_running s \<and> events s = [] \<and> \<not> (submitter_ended s \<and> jobs s = []) \<longrightarrow>
        proceed_simulation s = Inl RuntimeError)
   \<and> (is_running s \<and> events s \<noteq> [] \<and> sorted (map timestamp (events s))
        \<and> timestamp (hd (events s)) = of_int t \<longrightarrow>
        (\<exists>s'. proceed_simulation s = Inr s' \<and> current_time s' = t
           \<and> dispatched s' = dispatched s @ filter (\<lambda>e. timestamp e = of_int t) (events s)
           \<and> events s' = filter (\<lambda>e. timestamp e \<noteq> of_int t) (events s)))"
proof (intro conjI impI)
  assume "\<not> is_running s"
  then show "proceed_simulation s = Inl AssertionError"
    by (simp add: proceed_simulation_def)
next
  assume a: "is_running s \<and> events s = [] \<and> submitter_ended s \<and> jobs s = []"
  then show "proceed_simulation s = Inr (finish s)"
    by (simp add: proceed_simulation_def)
  from a show "\<not> is_running (finish s)"
    by (simp add: finish_running)
  from a show "dispatched (finish s) =
      dispatched s @ [mk_event (of_int (current_time s)) SimulationEnds]"
    by (simp add: finish_running)
next
  assume "is_running s \<and> events s = [] \<and> \<not> (submitter_ended s \<and> jobs s = [])"
  then show "proceed_simulation s = Inl RuntimeError"
    by (auto simp: proceed_simulation_def)
next
  assume a: "is_running s \<and> events s \<noteq> [] \<and> sorted (map timestamp (events s))
        \<and> timestamp (hd (events s)) = of_int t"
  define s1 where "s1 = s\<lparr> current_time_raw := timestamp (hd (events s)) \<rparr>"
  have t: "current_time s1 = t"
    using a by (simp add: s1_def current_time_def)
  have e: "events s1 = events s" "dispatched s1 = dispatched s"
    by (simp_all add: s1_def)
  have "\<forall>e\<in>set (events s1). of_int (current_time s1) \<le> timestamp e"
    using a sorted_hd_least [of timestamp "events s"] by (simp add: t e)
  moreover have "sorted (map timestamp (events s1))"
    using a by (simp add: e)
  ultimately have d: "dispatch_events s1 =
      s1\<lparr> events := filter (\<lambda>e. timestamp e \<noteq> of_int t) (events s),
          dispatched := dispatched s @ filter (\<lambda>e. timestamp e = of_int t) (events s) \<rparr>"
    using dispatch_events_sorted [of s1] by (simp add: t e)
  have "proceed_simulation s = Inr (dispatch_events s1)"
    using a by (simp add: proceed_simulation_def s1_def)
  moreover have "current_time (dispatch_events s1) = t"
    using t by (simp add: d current_time_def)
  ultimately show "\<exists>s'. proceed_simulation s = Inr s' \<and> current_time s' = t
           \<and> dispatched s' = dispatched s @ filter (\<lambda>e. timestamp e = of_int t) (events s)
           \<and> events s' = filter (\<lambda>e. timestamp e \<noteq> of_int t) (events s)"
    by (simp add: d)
qed

theorem proceed_simulation_cases_witness:
  "proceed_simulation GridSimulatorHandler_init = Inl AssertionError
   \<and> proceed_simulation (ex_started\<lparr> submitter_ended := True \<rparr>) =
         Inr (finish (ex_started\<lparr> submitter_ended := True \<rparr>))
   \<and> \<not> is_running (finish (ex_started\<lparr> submitter_ended := True \<rparr>))
   \<and> proceed_simulation ex_started = Inl RuntimeError
   \<and> (\<exists>s'. proceed_simulation ex_queue = Inr s' \<and> current_time s' = 5
          \<and> dispatched s' = [mk_event 5 RequestedCall, mk_event 5 (JobKilled [''j2''])]
          \<and> events s' = [mk_event 9 RequestedCall])"
proof -
  have h1: "\<not> is_running GridSimulatorHandler_init"
    by (simp add: GridSimulatorHandler_init_def)
  define si where "si = ex_started\<lparr> submitter_ended := True \<rparr>"
  have h2: "is_running si \<and> events si = [] \<and> submitter_ended si \<and> jobs si = []"
    by (simp add: si_def ex_started_def)
  have h3: "is_running ex_started \<and> events ex_started = []
            \<and> \<not> (submitter_ended ex_started \<and> jobs ex_started = [])"
    by (simp add: ex_started_def)
  have h4: "is_running ex_queue \<and> events ex_queue \<noteq> []
            \<and> sorted (map timestamp (events ex_queue))
            \<and> timestamp (hd (events ex_queue)) = of_int 5"
    by (simp add: ex_queue_def mk_event_def)
  have f: "filter (\<lambda>e. timestamp e = of_int 5) (events ex_queue) =
             [mk_event 5 RequestedCall, mk_event 5 (JobKilled [''j2''])]"
          "filter (\<lambda>e. timestamp e \<noteq> of_int 5) (events ex_queue) = [mk_event 9 RequestedCall]"
          "dispatched ex_queue = []"
    by (simp_all add: ex_queue_def mk_event_def)
  from proceed_simulation_cases [of GridSimulatorHandler_init 0] h1
  have c1: "proceed_simulation GridSimulatorHandler_init = Inl AssertionError"
    by blast
  from proceed_simulation_cases [of si 0] h2
  have c2: "proceed_simulation si = Inr (finish si) \<and> \<not> is_running (finish si)"
    by blast
  from proceed_simulation_cases [of ex_started 0] h3
  have c3: "proceed_simulation ex_started = Inl RuntimeError"
    by blast
  from proceed_simulation_cases [of ex_queue 5] h4
  have c4: "\<exists>s'. proceed_simulation ex_queue = Inr s' \<and> current_time s' = 5
          \<and> dispatched s' = dispatched ex_queue @ filter (\<lambda>e. timestamp e = of_int 5) (events ex_queue)
          \<and> events s' = filter (\<lambda>e. timestamp e \<noteq> of_int 5) (events ex_queue)"
    by blast
  from c4 have c4': "\<exists>s'. proceed_simulation ex_queue = Inr s' \<and> current_time s' = 5
          \<and> dispatched s' = [mk_event 5 RequestedCall, mk_event 5 (JobKilled [''j2''])]
          \<and> events s' = [mk_event 9 RequestedCall]"
    by (simp only: f append_Nil)
  from c1 c2 c3 c4' show ?thesis
    unfolding si_def by blast
qed

text \<open>
  Claim C3, counterexample to the claim as stated. Right after \<^verbatim>\<open>start\<close> the handle is
  running, its queue is empty and the feeder has not signalled completion: the claim's
  "otherwise" promises a dispatch, the code raises \<^verbatim>\<open>RuntimeError\<close>.
\<close>

theorem proceed_simulation_empty_queue_counterexample:
  "start (Some ex_platform) GridSimulatorHandler_init = Inr ex_started
   \<and> is_running ex_started \<and> events ex_started = [] \<and> \<not> submitter_ended ex_started
   \<and> proceed_simulation ex_started = Inl RuntimeError"
  by code_simp

subsection \<open>Power-state transitions of the self-contained handle\<close>








subsection \<open>Deferred callbacks\<close>

lemma sorted_takeWhile_le:
  "sorted (map f xs) \<Longrightarrow> takeWhile (\<lambda>x. f x \<le> c) xs = filter (\<lambda>x. f x \<le> (c::rat)) xs"
proof (induction xs)
  case Nil
  then show ?case by simp
next
  case (Cons x xs)
  show ?case
  proof (cases "f x \<le> c")
    case True
    with Cons show ?thesis by simp
  next
    case False
    with Cons.prems have "\<forall>y\<in>set xs. \<not> f y \<le> c" by fastforce
    then have "filter (\<lambda>x. f x \<le> c) xs = []"
      by (auto simp: filter_empty_conv)
    with False show ?thesis by simp
  qed
qed

lemma list_ex_requested_call_prefix:
  "sorted (map timestamp es) \<Longrightarrow>
     list_ex (\<lambda>e. etype e = REQUESTED_CALL \<and> timestamp e = of_int t)
       (takeWhile (\<lambda>e. timestamp e \<le> of_int t) es) =
     list_ex (requested_call_at t) es"
  by (auto simp: sorted_takeWhile_le list_ex_iff requested_call_at_def)


lemma length_SortedList_add: "length (SortedList_add key e es) = Suc (length es)"
  by (induction es) auto

lemma length_filter_SortedList_add:
  "length (filter p (SortedList_add key e es)) = length (filter p es) + (if p e then 1 else 0)"
  by (induction es) auto

lemma set_SortedList_add: "set (SortedList_add key e es) = insert e (set es)"
  by (induction es) auto

lemma call_me_later_eq:
  assumes "sorted (map timestamp (events s))" "current_time s \<le> \<lfloor>a\<rfloor>"
  shows "call_me_later a s =
           Inr (if list_ex (requested_call_at \<lfloor>a\<rfloor>) (events s) then s
                else events_add (mk_event (of_int \<lfloor>a\<rfloor>) RequestedCall) s)"
  using assms
  by (simp add: call_me_later_def Let_def list_ex_requested_call_prefix del: etype.simps)

lemma sorted_SortedList_add:
  "sorted (map key es) \<Longrightarrow> sorted (map key (SortedList_add key e es))"
  by (induction es) (auto simp: set_SortedList_add)

lemma requested_call_at_mk: "requested_call_at t (mk_event (of_int t) RequestedCall)"
  by (simp add: requested_call_at_def mk_event_def)

text \<open>
  Claim C5, as the code has it. On the self-contained handle (with its queue sorted):
  \<^verbatim>\<open>call_me_later(at)\<close> fails its assertion when \<open>at\<close> lies before the current time;
  otherwise it succeeds, a requested-call event at \<open>\<lfloor>at\<rfloor>\<close> is queued afterwards (exactly
  one if there was at most one before), and a second call with the same argument changes
  nothing. On the remote handle every call adds a \<open>CallMeLaterRequest\<close> for
  \<open>\<lfloor>at\<rfloor> + 0.0009\<close> to the request buffer: there is no check against the current time and
  no deduplication.
\<close>

theorem call_me_later_both_handles:
  "(a < of_int (current_time s) \<longrightarrow> call_me_later a s = Inl AssertionError)
   \<and> (of_int (current_time s) \<le> a \<and> sorted (map timestamp (events s)) \<longrightarrow>
        (\<exists>s'. call_me_later a s = Inr s'
           \<and> length (filter (requested_call_at \<lfloor>a\<rfloor>) (events s')) =
               max 1 (length (filter (requested_call_at \<lfloor>a\<rfloor>) (events s)))
           \<and> call_me_later a s' = Inr s'))
   \<and> b_requests (b_call_me_later a b) =
        SortedList_add rq_timestamp
          (mk_request (of_int (b_current_time b)) (CallMeLaterRequest (of_int \<lfloor>a\<rfloor> + 9 / 10000)))
          (b_requests b)
   \<and> length (b_requests (b_call_me_later a (b_call_me_later a b))) = length (b_requests b) + 2"
proof (intro conjI impI)
  assume "a < of_int (current_time s)"
  then have "\<lfloor>a\<rfloor> < current_time s" by (simp add: floor_less_iff)
  then show "call_me_later a s = Inl AssertionError"
    by (simp add: call_me_later_def Let_def)
next
  assume h: "of_int (current_time s) \<le> a \<and> sorted (map timestamp (events s))"
  then have le: "current_time s \<le> \<lfloor>a\<rfloor>" by (simp add: le_floor_iff)
  define s' where "s' = (if list_ex (requested_call_at \<lfloor>a\<rfloor>) (events s) then s
                else events_add (mk_event (of_int \<lfloor>a\<rfloor>) RequestedCall) s)"
  have 1: "call_me_later a s = Inr s'"
    using h le by (simp add: call_me_later_eq s'_def)
  have ex: "list_ex (requested_call_at \<lfloor>a\<rfloor>) (events s')"
    by (simp add: s'_def events_add_def list_ex_iff set_SortedList_add requested_call_at_mk)
  have srt: "sorted (map timestamp (events s'))"
    using h by (simp add: s'_def events_add_def sorted_SortedList_add)
  have ct: "current_time s' = current_time s"
    by (simp add: s'_def events_add_def current_time_def)
  have 2: "call_me_later a s' = Inr s'"
    using call_me_later_eq [OF srt, of a] le ex by (simp add: ct)
  have 3: "length (filter (requested_call_at \<lfloor>a\<rfloor>) (events s')) =
               max 1 (length (filter (requested_call_at \<lfloor>a\<rfloor>) (events s)))"
  proof (cases "list_ex (requested_call_at \<lfloor>a\<rfloor>) (events s)")
    case True
    then have "filter (requested_call_at \<lfloor>a\<rfloor>) (events s) \<noteq> []"
      by (auto simp: list_ex_iff filter_empty_conv)
    then have "1 \<le> length (filter (requested_call_at \<lfloor>a\<rfloor>) (events s))"
      by (cases "filter (requested_call_at \<lfloor>a\<rfloor>) (events s)") simp_all
    with True show ?thesis by (simp add: s'_def)
  next
    case False
    then have "filter (requested_call_at \<lfloor>a\<rfloor>) (events s) = []"
      by (auto simp: list_ex_iff filter_empty_conv)
    with False show ?thesis
      by (simp add: s'_def events_add_def length_filter_SortedList_add requested_call_at_mk)
  qed
  from 1 2 3 show "\<exists>s'. call_me_later a s = Inr s'
           \<and> length (filter (requested_call_at \<lfloor>a\<rfloor>) (events s')) =
               max 1 (length (filter (requested_call_at \<lfloor>a\<rfloor>) (events s)))
           \<and> call_me_later a s' = Inr s'"
    by blast
next
  show "b_requests (b_call_me_later a b) =
        SortedList_add rq_timestamp
          (mk_request (of_int (b_current_time b)) (CallMeLaterRequest (of_int \<lfloor>a\<rfloor> + 9 / 10000)))
          (b_requests b)"
    by (simp add: b_call_me_later_def b_append_request_def)
next
  show "length (b_requests (b_call_me_later a (b_call_me_later a b))) = length (b_requests b) + 2"
    by (simp add: b_call_me_later_def b_append_request_def length_SortedList_add)
qed

theorem call_me_later_both_handles_witness:
  "call_me_later 2 ex_queue = Inl AssertionError
   \<and> (\<exists>s'. call_me_later 12 ex_queue = Inr s'
          \<and> length (filter (requested_call_at 12) (events s')) = 1
          \<and> call_me_later 12 s' = Inr s')
   \<and> b_requests (b_call_me_later 5 ex_remote) =
         [mk_request 10 (CallMeLaterRequest (50009 / 10000))]
   \<and> length (b_requests (b_call_me_later 5 (b_call_me_later 5 ex_remote))) = 2"
proof -
  have t: "current_time ex_queue = 3" "b_current_time ex_remote = 10" "b_requests ex_remote = []"
    by (simp_all add: current_time_def ex_queue_def b_current_time_def ex_remote_def)
  have h1: "(2::rat) < of_int (current_time ex_queue)"
    by (simp add: t)
  have h2: "of_int (current_time ex_queue) \<le> (12::rat) \<and> sorted (map timestamp (events ex_queue))"
    by (simp add: t) (simp add: ex_queue_def mk_event_def)
  have f: "filter (requested_call_at 12) (events ex_queue) = []"
    by (simp add: ex_queue_def requested_call_at_def mk_event_def)
  from call_me_later_both_handles [of 2 ex_queue ex_remote] h1
  have c1: "call_me_later 2 ex_queue = Inl AssertionError"
    by blast
  from call_me_later_both_handles [of 12 ex_queue ex_remote] h2
  have "\<exists>s'. call_me_later 12 ex_queue = Inr s'
           \<and> length (filter (requested_call_at \<lfloor>12::rat\<rfloor>) (events s')) =
               max 1 (length (filter (requested_call_at \<lfloor>12::rat\<rfloor>) (events ex_queue)))
           \<and> call_me_later 12 s' = Inr s'"
    by blast
  then have c2: "\<exists>s'. call_me_later 12 ex_queue = Inr s'
          \<and> length (filter (requested_call_at 12) (events s')) = 1
          \<and> call_me_later 12 s' = Inr s'"
    by (simp add: f)
  from call_me_later_both_handles [of 5 ex_queue ex_remote]
  have c3: "b_requests (b_call_me_later 5 ex_remote) =
         [mk_request 10 (CallMeLaterRequest (50009 / 10000))]"
    and c4: "length (b_requests (b_call_me_later 5 (b_call_me_later 5 ex_remote))) = 2"
    by (simp_all add: t)
  from c1 c2 c3 c4 show ?thesis by blast
qed

text \<open>
  Claim C5, counterexample to the claim as stated. On the remote handle at time 10, two
  calls for the same time leave two requests in the buffer (the second call is not a
  no-op), and a call for time 3, which lies in the past, is accepted and queued.
\<close>

theorem b_call_me_later_duplicate_counterexample:
  "b_requests (b_call_me_later 5 (b_call_me_later 5 ex_remote)) =
     [mk_request 10 (CallMeLaterRequest (50009 / 10000)),
      mk_request 10 (CallMeLaterRequest (50009 / 10000))]
   \<and> b_call_me_later 5 (b_call_me_later 5 ex_remote) \<noteq> b_call_me_later 5 ex_remote
   \<and> b_current_time ex_remote = 10
   \<and> b_requests (b_call_me_later 3 ex_remote) =
     [mk_request 10 (CallMeLaterRequest (30009 / 10000))]"
  by code_simp

subsection \<open>Finishing\<close>

lemma finish_idempotent: "finish (finish s) = finish s"
proof (cases "is_running s")
  case True
  then have "\<not> is_running (finish s)" by (simp add: finish_running)
  then show ?thesis by (simp add: finish_def [of "finish s"])
next
  case False
  then show ?thesis by (simp add: finish_def)
qed

lemma b_finish_eq:
  "b_finish b =
     b\<lparr> b_simulator := False, b_requests := [], b_closes := Suc (b_closes b),
        b_dispatched := b_dispatched b @ [mk_event (of_int (b_current_time b)) SimulationEnds] \<rparr>"
  by (simp add: b_finish_def b_close_simulator_def on_simulation_ends_def Let_def
      b_current_time_def mk_event_def)

text \<open>
  Claim C6. On the self-contained handle \<^verbatim>\<open>finish\<close> is idempotent: it returns at once
  when the handle is not running, so a second call changes nothing and one
  \<open>SimulationEnds\<close> event is dispatched. On the remote handle \<^verbatim>\<open>finish\<close> has no such
  guard: every call dispatches a \<open>SimulationEnds\<close> event, so two calls in succession
  dispatch two.
\<close>

theorem finish_twice:
  "finish (finish s) = finish s
   \<and> b_dispatched (b_finish (b_finish b)) =
       b_dispatched b @ [mk_event (of_int (b_current_time b)) SimulationEnds,
                         mk_event (of_int (b_current_time b)) SimulationEnds]
   \<and> b_dispatched (b_finish (b_finish ex_remote)) =
       [mk_event 10 SimulationEnds, mk_event 10 SimulationEnds]"
proof (intro conjI)
  show "finish (finish s) = finish s" by (rule finish_idempotent)
  show g: "b_dispatched (b_finish (b_finish b)) =
       b_dispatched b @ [mk_event (of_int (b_current_time b)) SimulationEnds,
                         mk_event (of_int (b_current_time b)) SimulationEnds]" for b
    by (simp add: b_finish_eq b_current_time_def)
  show "b_dispatched (b_finish (b_finish ex_remote)) =
       [mk_event 10 SimulationEnds, mk_event 10 SimulationEnds]"
    by (simp add: g) (simp add: ex_remote_def b_current_time_def)
qed

subsection \<open>Rejecting jobs\<close>

lemma map_of_delete_same: "map_of (AList.delete k al) k = None"
  by (simp add: AList.delete_conv')

text \<open>
  Claim C7, as the code has it. On the self-contained handle \<^verbatim>\<open>reject_job\<close> removes a
  pending job from the pending set and changes nothing else: no event is queued or
  dispatched; for an id that is not pending it raises \<^verbatim>\<open>KeyError\<close>. On the remote
  handle, which keeps no pending set, it queues one \<open>RejectJobRequest\<close> for the id,
  stamped with the current time.
\<close>

theorem reject_job_both_handles:
  "(map_of (jobs s) jid \<noteq> None \<longrightarrow>
      reject_job jid s = Inr (s\<lparr> jobs := AList.delete jid (jobs s) \<rparr>)
      \<and> map_of (AList.delete jid (jobs s)) jid = None)
   \<and> (map_of (jobs s) jid = None \<longrightarrow> reject_job jid s = Inl KeyError)
   \<and> b_reject_job jid b =
       b\<lparr> b_requests :=
            SortedList_add rq_timestamp
              (mk_request (of_int (b_current_time b)) (RejectJobRequest jid)) (b_requests b) \<rparr>"
  by (auto simp: reject_job_def b_reject_job_def b_append_request_def map_of_delete_same)

theorem reject_job_both_handles_witness:
  "reject_job ''j1'' (ex_grid 1000) = Inr ((ex_grid 1000)\<lparr> jobs := [] \<rparr>)
   \<and> reject_job ''j9'' (ex_grid 1000) = Inl KeyError
   \<and> b_requests (b_reject_job ''j1'' ex_remote) = [mk_request 10 (RejectJobRequest ''j1'')]"
proof -
  have h1: "map_of (jobs (ex_grid 1000)) ''j1'' \<noteq> None"
    by (simp add: ex_grid_def)
  have h2: "map_of (jobs (ex_grid 1000)) ''j9'' = None"
    by (simp add: ex_grid_def)
  have d: "AList.delete ''j1'' (jobs (ex_grid 1000)) = []"
    by (simp add: ex_grid_def)
  from reject_job_both_handles [of "ex_grid 1000" "''j1''" ex_remote] h1
  have c1: "reject_job ''j1'' (ex_grid 1000) = Inr ((ex_grid 1000)\<lparr> jobs := [] \<rparr>)"
    by (simp add: d)
  from reject_job_both_handles [of "ex_grid 1000" "''j9''" ex_remote] h2
  have c2: "reject_job ''j9'' (ex_grid 1000) = Inl KeyError"
    by blast
  from reject_job_both_handles [of "ex_grid 1000" "''j1''" ex_remote]
  have c3: "b_requests (b_reject_job ''j1'' ex_remote) = [mk_request 10 (RejectJobRequest ''j1'')]"
    by (simp add: ex_remote_def b_current_time_def)
  from c1 c2 c3 show ?thesis by blast
qed

text \<open>
  Claim C7, counterexample to the claim as stated. Rejecting the pending job of the first
  example on the self-contained handle leaves the queue and the dispatch record empty:
  no \<open>JobRejected\<close> event is emitted.
\<close>

theorem reject_job_emits_nothing_counterexample:
  "reject_job ''j1'' (ex_grid 1000) = Inr ((ex_grid 1000)\<lparr> jobs := [] \<rparr>)
   \<and> events ((ex_grid 1000)\<lparr> jobs := [] \<rparr>) = []
   \<and> dispatched ((ex_grid 1000)\<lparr> jobs := [] \<rparr>) = []"
  by code_simp

subsection \<open>Request merging and batching on the remote handle\<close>

lemma b_dispatch_events_plain:
  "\<forall>e\<in>set evs. etype e \<noteq> SIMULATION_ENDS \<Longrightarrow>
     b_dispatch_events evs s = s\<lparr> b_dispatched := b_dispatched s @ evs \<rparr>"
  by (induction evs arbitrary: s) (simp_all del: etype.simps)

lemma etype_transition_events:
  "\<forall>e\<in>set (transition_events now trs). etype e \<noteq> SIMULATION_ENDS"
  by (auto simp: transition_events_def mk_event_def)

lemma b_set_resources_pstate_requests:
  assumes "b_set_resources_pstate rids p s = Inr s'"
  shows "b_requests s' = b_requests (b_queue_pstate_request rids p s)"
    and "b_current_time s' = b_current_time s"
    and "b_sent s' = b_sent s"
    and "b_simulator s' = b_simulator s"
proof -
  define s1 where "s1 = b_queue_pstate_request rids p s"
  have q: "b_current_time_raw s1 = b_current_time_raw s" "b_sent s1 = b_sent s"
    "b_simulator s1 = b_simulator s"
    by (simp_all add: s1_def b_queue_pstate_request_def b_append_request_def split: option.splits)
  from assms obtain evs where evs: "s' = b_dispatch_events evs s1"
    "\<forall>e\<in>set evs. etype e \<noteq> SIMULATION_ENDS"
    using etype_transition_events
    by (auto simp: b_set_resources_pstate_def Let_def s1_def split: option.splits sum.splits)
  then have s': "s' = s1\<lparr> b_dispatched := b_dispatched s1 @ evs \<rparr>"
    by (simp add: b_dispatch_events_plain)
  show "b_requests s' = b_requests (b_queue_pstate_request rids p s)"
    by (simp add: s' s1_def)
  show "b_current_time s' = b_current_time s" "b_sent s' = b_sent s"
    "b_simulator s' = b_simulator s"
    by (simp_all add: s' q b_current_time_def)
qed

lemma rq_timestamp_update_resources [simp]:
  "rq_timestamp (update_resources rids r) = rq_timestamp r"
  by (simp add: update_resources_def split: RequestData.splits)

lemma merge_loop_Cons:
  "merge_loop now rids (r # rs) =
     (if pstate_request_at now r then Some (update_resources rids r # rs)
      else map_option (Cons r) (merge_loop now rids rs))"
  by (simp add: pstate_request_at_def del: rq_type.simps)

lemma merge_loop_none:
  "\<not> list_ex (pstate_request_at now) reqs \<Longrightarrow> merge_loop now rids reqs = None"
  by (induction reqs) (simp_all add: merge_loop_Cons del: merge_loop.simps(2))

lemma merge_loop_added:
  "\<not> list_ex (pstate_request_at now) reqs \<Longrightarrow> pstate_request_at now req \<Longrightarrow>
     merge_loop now rids (SortedList_add rq_timestamp req reqs) =
       Some (SortedList_add rq_timestamp (update_resources rids req) reqs)"
  by (induction reqs) (simp_all add: merge_loop_Cons del: merge_loop.simps(2))

lemma queue_pstate_request_twice:
  assumes "\<not> list_ex (pstate_request_at (b_current_time s)) (b_requests s)"
  shows "b_requests (b_queue_pstate_request r2 p2 (b_queue_pstate_request r1 p1 s)) =
           SortedList_add rq_timestamp
             (mk_request (of_int (b_current_time s)) (SetResourceStateRequest (ProcSet (r1 @ r2)) p1))
             (b_requests s)"
proof -
  define req where
    "req = mk_request (of_int (b_current_time s)) (SetResourceStateRequest r1 p1)"
  define s1 where "s1 = b_queue_pstate_request r1 p1 s"
  have r: "pstate_request_at (b_current_time s) req"
    by (simp add: req_def pstate_request_at_def mk_request_def)
  have s1: "b_requests s1 = SortedList_add rq_timestamp req (b_requests s)"
    "b_current_time s1 = b_current_time s"
    using assms
    by (simp_all add: s1_def b_queue_pstate_request_def merge_loop_none b_append_request_def
        req_def b_current_time_def)
  have u: "update_resources r2 req =
      mk_request (of_int (b_current_time s)) (SetResourceStateRequest (ProcSet (r1 @ r2)) p1)"
    by (simp add: update_resources_def req_def mk_request_def)
  have "merge_loop (b_current_time s1) r2 (b_requests s1) =
      Some (SortedList_add rq_timestamp (update_resources r2 req) (b_requests s))"
    using assms r by (simp add: s1 merge_loop_added)
  then have "b_requests (b_queue_pstate_request r2 p2 s1) =
      SortedList_add rq_timestamp (update_resources r2 req) (b_requests s)"
    by (simp add: b_queue_pstate_request_def)
  then show ?thesis
    unfolding s1_def u .
qed


lemma filter_SortedList_add_only:
  "\<not> list_ex p es \<Longrightarrow> p e \<Longrightarrow> filter p (SortedList_add key e es) = [e]"
  by (induction es) (auto simp: list_ex_iff filter_empty_conv)

lemma b_dispatch_events_effect:
  "b_sent (b_dispatch_events evs s) =
     b_sent s @ (if b_simulator s \<and> list_ex (\<lambda>e. etype e = SIMULATION_ENDS) evs
                 then [\<lparr> msg_now = of_int (b_current_time s), msg_requests = [] \<rparr>] else [])
   \<and> b_requests (b_dispatch_events evs s) =
       (if list_ex (\<lambda>e. etype e = SIMULATION_ENDS) evs then [] else b_requests s)
   \<and> b_current_time_raw (b_dispatch_events evs s) = b_current_time_raw s"
proof (induction evs arbitrary: s)
  case Nil
  then show ?case by simp
next
  case (Cons e evs)
  define s1 where "s1 = (if etype e = SIMULATION_ENDS then on_simulation_ends s else s)"
  define s2 where "s2 = s1\<lparr> b_dispatched := b_dispatched s1 @ [e] \<rparr>"
  have d: "b_dispatch_events (e # evs) s = b_dispatch_events evs s2"
    by (simp add: s1_def s2_def Let_def del: etype.simps)
  have p: "b_current_time_raw s2 = b_current_time_raw s"
    "b_simulator s2 = (b_simulator s \<and> etype e \<noteq> SIMULATION_ENDS)"
    "b_sent s2 = b_sent s @ (if b_simulator s \<and> etype e = SIMULATION_ENDS
                 then [\<lparr> msg_now = of_int (b_current_time s), msg_requests = [] \<rparr>] else [])"
    "b_requests s2 = (if etype e = SIMULATION_ENDS then [] else b_requests s)"
    by (simp_all add: s2_def s1_def on_simulation_ends_def b_close_simulator_def b_ack_def
        Let_def b_current_time_def del: etype.simps)
  show ?case
    using Cons.IH [of s2]
    by (simp add: d p b_current_time_def del: etype.simps b_dispatch_events.simps)
qed

lemma b_two_pstate_calls:
  assumes c1: "b_set_resources_pstate r1 p1 s = Inr s1"
    and c2: "b_set_resources_pstate r2 p2 s1 = Inr s2"
    and fresh: "\<not> list_ex (pstate_request_at (b_current_time s)) (b_requests s)"
  shows "b_requests s2 =
           SortedList_add rq_timestamp
             (mk_request (of_int (b_current_time s)) (SetResourceStateRequest (ProcSet (r1 @ r2)) p1))
             (b_requests s)
         \<and> b_current_time s2 = b_current_time s \<and> b_sent s2 = b_sent s
         \<and> b_simulator s2 = b_simulator s"
proof -
  note a = b_set_resources_pstate_requests [OF c1]
  note b = b_set_resources_pstate_requests [OF c2]
  have "b_requests (b_queue_pstate_request r2 p2 s1) =
          b_requests (b_queue_pstate_request r2 p2 (b_queue_pstate_request r1 p1 s))"
    using a(1) a(2)
    by (simp add: b_queue_pstate_request_def b_append_request_def b_current_time_def
        split: option.splits)
  then show ?thesis
    using a b queue_pstate_request_twice [OF fresh] by simp
qed

lemma b_proceed_simulation_sent:
  assumes "b_is_running s"
  shows "\<exists>s'. b_proceed_simulation reply s = Inr s'
           \<and> b_sent s' =
               b_sent s @ [\<lparr> msg_now = of_int (b_current_time s), msg_requests = b_requests s \<rparr>]
               @ (if list_ex (\<lambda>e. etype e = SIMULATION_ENDS) (snd reply)
                  then [\<lparr> msg_now = of_int \<lfloor>fst reply\<rfloor>, msg_requests = [] \<rparr>] else [])
           \<and> b_requests s' = []"
proof -
  define s3 where "s3 = (b_send_requests s)\<lparr> b_current_time_raw := fst reply \<rparr>"
  have p: "b_proceed_simulation reply s = Inr (b_dispatch_events (snd reply) s3)"
    using assms by (simp add: b_proceed_simulation_def s3_def Let_def)
  have s3: "b_sent s3 = b_sent s @ [\<lparr> msg_now = of_int (b_current_time s), msg_requests = b_requests s \<rparr>]"
    "b_requests s3 = []" "b_simulator s3" "b_current_time s3 = \<lfloor>fst reply\<rfloor>"
    using assms
    by (simp_all add: s3_def b_send_requests_def Let_def b_is_running_def b_current_time_def)
  show ?thesis
    using b_dispatch_events_effect [of "snd reply" s3]
    by (simp add: p s3 del: etype.simps)
qed


lemma ex_remote_sleep_calls:
  "b_set_resources_pstate [0] 1 ex_remote_sleep = Inr ex_remote_sleep1"
  "b_set_resources_pstate [1] 4 ex_remote_sleep1 = Inr ex_remote_sleep2"
  by code_simp+


lemma rq_target_other: "rq_type r \<noteq> SET_RESOURCE_STATE \<Longrightarrow> rq_target r = None"
  by (simp add: rq_target_def split: RequestData.splits)

text \<open>
  Claim C10. On the remote handle, when two successful \<^verbatim>\<open>set_resources_pstate\<close> calls
  are made at the same current time with different target states \<open>p1\<close> and \<open>p2\<close>, starting
  from a buffer without power-state requests, the next \<^verbatim>\<open>proceed_simulation\<close> sends a
  batch whose only power-state request carries the union of the resource ids and the
  first target \<open>p1\<close>; no request of any message it sends carries the target \<open>p2\<close>.
\<close>

theorem second_pstate_not_transmitted:
  assumes c1: "b_set_resources_pstate r1 p1 s = Inr s1"
    and c2: "b_set_resources_pstate r2 p2 s1 = Inr s2"
    and fresh: "\<not> list_ex (\<lambda>r. rq_type r = SET_RESOURCE_STATE) (b_requests s)"
    and run: "b_is_running s"
    and diff: "p1 \<noteq> p2"
  shows "\<exists>s3 batch acks. b_proceed_simulation reply s2 = Inr s3
           \<and> b_sent s3 = b_sent s @ batch # acks
           \<and> map rq_data (filter (\<lambda>r. rq_type r = SET_RESOURCE_STATE) (msg_requests batch)) =
               [SetResourceStateRequest (ProcSet (r1 @ r2)) p1]
           \<and> (\<forall>m\<in>set (batch # acks). \<forall>r\<in>set (msg_requests m). rq_target r \<noteq> Some p2)"
proof -
  define merged where
    "merged = mk_request (of_int (b_current_time s)) (SetResourceStateRequest (ProcSet (r1 @ r2)) p1)"
  have fresh': "\<not> list_ex (pstate_request_at (b_current_time s)) (b_requests s)"
    using fresh by (auto simp: list_ex_iff pstate_request_at_def)
  note t = b_two_pstate_calls [OF c1 c2 fresh', folded merged_def]
  have run2: "b_is_running s2"
    using run t by (simp add: b_is_running_def)
  define batch where
    "batch = \<lparr> msg_now = of_int (b_current_time s2), msg_requests = b_requests s2 \<rparr>"
  define acks where
    "acks = (if list_ex (\<lambda>e. etype e = SIMULATION_ENDS) (snd reply)
             then [\<lparr> msg_now = of_int \<lfloor>fst reply\<rfloor>, msg_requests = [] \<rparr>] else [])"
  from b_proceed_simulation_sent [OF run2, of reply] obtain s3 where
    s3: "b_proceed_simulation reply s2 = Inr s3" "b_sent s3 = b_sent s @ batch # acks"
    using t by (auto simp: batch_def acks_def simp del: etype.simps)
  have m: "rq_type merged = SET_RESOURCE_STATE" "rq_target merged = Some p1"
    "rq_data merged = SetResourceStateRequest (ProcSet (r1 @ r2)) p1"
    by (simp_all add: merged_def mk_request_def rq_target_def)
  have f: "filter (\<lambda>r. rq_type r = SET_RESOURCE_STATE) (msg_requests batch) = [merged]"
    using fresh m(1) t by (simp add: batch_def filter_SortedList_add_only del: rq_type.simps)
  have "rq_target r \<noteq> Some p2" if "r \<in> set (msg_requests batch)" for r
  proof (cases "r = merged")
    case True
    with m diff show ?thesis by simp
  next
    case False
    with that t have "r \<in> set (b_requests s)"
      by (simp add: batch_def set_SortedList_add)
    with fresh have "rq_type r \<noteq> SET_RESOURCE_STATE"
      by (auto simp: list_ex_iff)
    then show ?thesis by (simp add: rq_target_other)
  qed
  moreover have "msg_requests a = []" if "a \<in> set acks" for a
    using that by (auto simp: acks_def split: if_splits)
  ultimately have "\<forall>m\<in>set (batch # acks). \<forall>r\<in>set (msg_requests m). rq_target r \<noteq> Some p2"
    by auto
  with s3 f m(3) show ?thesis
    by (intro exI [of _ s3] exI [of _ batch] exI [of _ acks]) simp
qed

theorem second_pstate_not_transmitted_witness:
  "b_set_resources_pstate [0] 1 ex_remote_sleep = Inr ex_remote_sleep1
   \<and> b_set_resources_pstate [1] 4 ex_remote_sleep1 = Inr ex_remote_sleep2
   \<and> (\<exists>s3 batch acks. b_proceed_simulation (11, [mk_event 11 SimulationEnds]) ex_remote_sleep2 = Inr s3
         \<and> b_sent s3 = batch # acks
         \<and> map rq_data (filter (\<lambda>r. rq_type r = SET_RESOURCE_STATE) (msg_requests batch)) =
             [SetResourceStateRequest [0, 1] 1]
         \<and> list_all (\<lambda>m. list_all (\<lambda>r. rq_target r \<noteq> Some 4) (msg_requests m)) (batch # acks))"
proof -
  have fresh: "\<not> list_ex (\<lambda>r. rq_type r = SET_RESOURCE_STATE) (b_requests ex_remote_sleep)"
    by (simp add: ex_remote_sleep_def)
  have run: "b_is_running ex_remote_sleep"
    by (simp add: ex_remote_sleep_def b_is_running_def)
  have diff: "(1::nat) \<noteq> 4" by simp
  have v: "b_sent ex_remote_sleep = []" "ProcSet ([0] @ [1]) = [0, 1]"
    by (simp_all add: ex_remote_sleep_def ProcSet_def)
  from second_pstate_not_transmitted [OF ex_remote_sleep_calls fresh run diff,
      of "(11, [mk_event 11 SimulationEnds])"]
  have "\<exists>s3 batch acks. b_proceed_simulation (11, [mk_event 11 SimulationEnds]) ex_remote_sleep2 = Inr s3
         \<and> b_sent s3 = batch # acks
         \<and> map rq_data (filter (\<lambda>r. rq_type r = SET_RESOURCE_STATE) (msg_requests batch)) =
             [SetResourceStateRequest [0, 1] 1]
         \<and> list_all (\<lambda>m. list_all (\<lambda>r. rq_target r \<noteq> Some 4) (msg_requests m)) (batch # acks)"
    by (simp only: v append_Nil list_all_iff)
  with ex_remote_sleep_calls show ?thesis by blast
qed

subsection \<open>The invariant of a run\<close>

lemma integral_of_int [simp]: "integral (of_int n)"
  unfolding integral_def by simp





lemma time_inv_cong:
  "events s' = events s \<Longrightarrow> dispatched s' = dispatched s \<Longrightarrow>
     current_time_raw s' = current_time_raw s \<Longrightarrow> time_inv s' = time_inv s"
  by (simp add: time_inv_def current_time_def)


lemma current_time_events_add [simp]: "current_time (events_add e s) = current_time s"
  by (simp add: events_add_def current_time_def)

lemma data_inv_events_add [simp]: "data_inv (events_add e s) = data_inv s"
  by (simp add: data_inv_def events_add_def)


lemma current_time_fold_events_add [simp]:
  "current_time (fold events_add evs s) = current_time s"
  by (induction evs arbitrary: s) simp_all

lemma data_inv_fold_events_add [simp]: "data_inv (fold events_add evs s) = data_inv s"
  by (induction evs arbitrary: s) simp_all






lemma data_inv_dispatch_events [simp]: "data_inv (dispatch_events s) = data_inv s"
  by (simp add: dispatch_events_def data_inv_def split: prod.splits)




































end
